theory Spec2Isabelle
  imports Main "HOL-Library.Word"
begin

unbundle bit_operations_syntax

section \<open>The host runtime as seen from \<^verbatim>\<open>unlock_environment.c\<close>\<close>

text \<open>
  The file \<^verbatim>\<open>src/unlock_environment.c\<close> consists of three guarded macros and one function:
  \<^verbatim>\<open>
  #define DRAKE_FRAME_LOCK_MASK (1<<14)
  #define DRAKE_FRAME_IS_LOCKED(e) (ENVFLAGS(e) & DRAKE_FRAME_LOCK_MASK)
  #define DRAKE_UNLOCK_FRAME(e) SET_ENVFLAGS(e, ENVFLAGS(e) & (~ DRAKE_FRAME_LOCK_MASK))

  SEXP unlock_environment(SEXP envir) {
    DRAKE_UNLOCK_FRAME(envir);
    return R_NilValue;
  }
  \<close>
  The type \<^verbatim>\<open>SEXP\<close>, the value \<^verbatim>\<open>R_NilValue\<close> and the accessors \<^verbatim>\<open>ENVFLAGS\<close> and
  \<^verbatim>\<open>SET_ENVFLAGS\<close> come from the headers of the host runtime, which are not part of the
  repository. They are modelled below from the specification; everything else is a
  transcription of the C text, with C's \<^verbatim>\<open>int\<close> as a 32-bit word.
\<close>

text \<open>
  Modelled from the spec: the type \<^verbatim>\<open>SEXP\<close> of references to host-runtime values and the
  host's empty/null value \<^verbatim>\<open>R_NilValue\<close> (the headers declaring them are missing). A
  reference is either the distinguished null value or a pointer.
\<close>

datatype SEXP = R_NilValue | Ptr nat

text \<open>
  Modelled from the spec: the execution-context record, "an opaque structure, owned and
  allocated by the host runtime, containing (among fields invisible to this code) a flags
  field" (the structure declaration is missing). The flags field is the 16-bit field
  \<^verbatim>\<open>gp\<close> of the record header, the width in which the specification writes its
  scenarios. All the other fields of a record (variable table, enclosing scope, hash
  table, attributes, collector marks) are the extension part \<open>SEXPREC.more\<close> of the
  record scheme, about which the functions below know nothing.
\<close>

record SEXPREC =
  gp :: "16 word"

text \<open>
  The memory of the host runtime: the live records, by reference. A reference outside the
  domain is invalid; using it is undefined behaviour in C and \<open>None\<close> here.
\<close>

type_synonym 'a heap = "SEXP \<Rightarrow> 'a SEXPREC_scheme option"

text \<open>
  Modelled from the spec: the accessor \<^verbatim>\<open>ENVFLAGS\<close> ("read the record's flags field"; the
  header defining it is missing). The unsigned 16-bit field is read as a C \<^verbatim>\<open>int\<close>, so
  it is zero-extended to 32 bits.
\<close>

definition ENVFLAGS :: "'a heap \<Rightarrow> SEXP \<Rightarrow> 32 word option" where
  "ENVFLAGS h x = (case h x of None \<Rightarrow> None | Some r \<Rightarrow> Some (ucast (gp r)))"

text \<open>
  Modelled from the spec: the accessor \<^verbatim>\<open>SET_ENVFLAGS\<close> ("write the result back into the
  record's flags field"; the header defining it is missing). The \<^verbatim>\<open>int\<close> argument is
  stored in the unsigned 16-bit field, which keeps its low 16 bits.
\<close>

definition SET_ENVFLAGS :: "'a heap \<Rightarrow> SEXP \<Rightarrow> 32 word \<Rightarrow> 'a heap option" where
  "SET_ENVFLAGS h x v =
     (case h x of None \<Rightarrow> None | Some r \<Rightarrow> Some (h(x \<mapsto> r\<lparr>gp := ucast v\<rparr>)))"

section \<open>The macros and the function of \<^verbatim>\<open>unlock_environment.c\<close>\<close>

text \<open>\<^verbatim>\<open>#define DRAKE_FRAME_LOCK_MASK (1<<14)\<close>: an \<^verbatim>\<open>int\<close> constant.\<close>

definition DRAKE_FRAME_LOCK_MASK :: "32 word" where
  "DRAKE_FRAME_LOCK_MASK = push_bit 14 1"

text \<open>\<^verbatim>\<open>#define DRAKE_FRAME_IS_LOCKED(e) (ENVFLAGS(e) & DRAKE_FRAME_LOCK_MASK)\<close>\<close>

definition DRAKE_FRAME_IS_LOCKED :: "'a heap \<Rightarrow> SEXP \<Rightarrow> 32 word option" where
  "DRAKE_FRAME_IS_LOCKED h e =
     (case ENVFLAGS h e of None \<Rightarrow> None | Some f \<Rightarrow> Some (f AND DRAKE_FRAME_LOCK_MASK))"

text \<open>
  \<^verbatim>\<open>#define DRAKE_UNLOCK_FRAME(e) SET_ENVFLAGS(e, ENVFLAGS(e) & (~ DRAKE_FRAME_LOCK_MASK))\<close>:
  the argument is evaluated first, in \<^verbatim>\<open>int\<close> arithmetic, and then stored.
\<close>

definition DRAKE_UNLOCK_FRAME :: "'a heap \<Rightarrow> SEXP \<Rightarrow> 'a heap option" where
  "DRAKE_UNLOCK_FRAME h e =
     (case ENVFLAGS h e of None \<Rightarrow> None
      | Some f \<Rightarrow> SET_ENVFLAGS h e (f AND NOT DRAKE_FRAME_LOCK_MASK))"

text \<open>
  \<^verbatim>\<open>SEXP unlock_environment(SEXP envir)\<close>: the macro, then \<^verbatim>\<open>return R_NilValue\<close>. The
  result is the memory after the call together with the returned value.
\<close>

definition unlock_environment :: "'a heap \<Rightarrow> SEXP \<Rightarrow> ('a heap \<times> SEXP) option" where
  "unlock_environment h envir =
     (case DRAKE_UNLOCK_FRAME h envir of None \<Rightarrow> None
      | Some h' \<Rightarrow> Some (h', R_NilValue))"

section \<open>The operation in the words of the specification\<close>

text \<open>
  The specification describes the new flags value on the flags field itself: "clear
  exactly one fixed bit (bit position 14 from the low end, mask value \<^verbatim>\<open>1<<14\<close>) via
  bitwise AND with the bitwise complement of that mask". This is that description, on
  16 bits; it is compared with the C computation, which goes through \<^verbatim>\<open>int\<close>, in
  \<open>narrow_and_not_mask\<close>.
\<close>

definition clear_lock_bit :: "16 word \<Rightarrow> 16 word" where
  "clear_lock_bit f = f AND NOT (push_bit 14 1)"

section \<open>Environments for the examples\<close>

text \<open>
  An instance of the fields the code does not see: an environment record has a variable
  table, an enclosing environment and a hash table.
\<close>

record ENVSXP = SEXPREC +
  frame :: SEXP
  enclos :: SEXP
  hashtab :: SEXP

definition locked_env :: ENVSXP where
  "locked_env = \<lparr>gp = 0x4000, frame = Ptr 10, enclos = Ptr 3, hashtab = R_NilValue\<rparr>"

definition locked_env_bit0 :: ENVSXP where
  "locked_env_bit0 = \<lparr>gp = 0x4001, frame = Ptr 20, enclos = Ptr 1, hashtab = Ptr 21\<rparr>"

definition unlocked_env :: ENVSXP where
  "unlocked_env = \<lparr>gp = 0, frame = R_NilValue, enclos = R_NilValue, hashtab = R_NilValue\<rparr>"

definition busy_env :: ENVSXP where
  "busy_env = \<lparr>gp = 0xFFFF, frame = Ptr 40, enclos = Ptr 2, hashtab = Ptr 41\<rparr>"

definition example_heap :: "unit ENVSXP_ext heap" where
  "example_heap =
     [Ptr 1 \<mapsto> locked_env, Ptr 2 \<mapsto> locked_env_bit0, Ptr 3 \<mapsto> unlocked_env,
      Ptr 4 \<mapsto> busy_env]"

definition other_heap :: "unit ENVSXP_ext heap" where
  "other_heap = [Ptr 2 \<mapsto> locked_env_bit0\<lparr>frame := Ptr 77, enclos := R_NilValue\<rparr>]"

section \<open>What a call does\<close>

text \<open>
  The C expression widens the flags to \<^verbatim>\<open>int\<close>, masks there and narrows on the store.
  On the 16-bit field this is the specification's AND with the complemented mask.
\<close>

lemma narrow_and_not_mask:
  "(ucast ((ucast f :: 32 word) AND NOT DRAKE_FRAME_LOCK_MASK) :: 16 word) = clear_lock_bit f"
  unfolding DRAKE_FRAME_LOCK_MASK_def clear_lock_bit_def
  by (rule bit_word_eqI) (auto simp add: bit_simps)

lemma bit_clear_lock_bit: "bit (clear_lock_bit f) n \<longleftrightarrow> bit f n \<and> n \<noteq> 14"
proof -
  have "bit f n \<Longrightarrow> n < 16"
    using bit_imp_le_length [of f n] by simp
  then show ?thesis
    unfolding clear_lock_bit_def
    by (auto simp only: bit_and_iff bit_not_iff bit_push_bit_iff bit_1_iff
        possible_bit_word len_num1 len_bit0 mult_numeral_1_right) auto
qed

lemma clear_lock_bit_idem: "clear_lock_bit (clear_lock_bit f) = clear_lock_bit f"
  by (rule bit_word_eqI) (auto simp add: bit_clear_lock_bit)

lemma clear_lock_bit_unlocked: "\<not> bit f 14 \<Longrightarrow> clear_lock_bit f = f"
  by (rule bit_word_eqI) (auto simp add: bit_clear_lock_bit)

text \<open>On a valid reference the call returns, and this is the memory it leaves.\<close>

lemma unlock_environment_valid:
  assumes "h envir = Some r"
  shows "unlock_environment h envir =
           Some (h(envir \<mapsto> r\<lparr>gp := clear_lock_bit (gp r)\<rparr>), R_NilValue)"
  using assms
  by (simp add: unlock_environment_def DRAKE_UNLOCK_FRAME_def ENVFLAGS_def SET_ENVFLAGS_def
      narrow_and_not_mask)

lemma unlock_environment_invalid:
  assumes "h envir = None"
  shows "unlock_environment h envir = None"
  using assms
  by (simp add: unlock_environment_def DRAKE_UNLOCK_FRAME_def ENVFLAGS_def)

lemma bit_DRAKE_FRAME_LOCK_MASK: "bit DRAKE_FRAME_LOCK_MASK n \<longleftrightarrow> n = 14"
  unfolding DRAKE_FRAME_LOCK_MASK_def
  by (auto simp only: bit_push_bit_iff bit_1_iff possible_bit_word len_num1 len_bit0
      mult_numeral_1_right)

section \<open>The lock bit after the call\<close>

text \<open>
  C1. For every execution-context record, after the call the lock bit (bit 14) of the
  record's flags field is clear, whether it was set or clear before: the call on a live
  record returns, the record it leaves has bit 14 of \<open>gp\<close> clear, and the file's own
  test \<^verbatim>\<open>DRAKE_FRAME_IS_LOCKED\<close> gives 0 on it.
\<close>

theorem unlock_environment_clears_lock_bit:
  assumes "h envir = Some r"
  shows "\<exists>h' v r'. unlock_environment h envir = Some (h', v) \<and> h' envir = Some r' \<and>
           \<not> bit (gp r') 14 \<and> DRAKE_FRAME_IS_LOCKED h' envir = Some 0"
proof -
  let ?r' = "r\<lparr>gp := clear_lock_bit (gp r)\<rparr>"
  let ?h' = "h(envir \<mapsto> ?r')"
  have run: "unlock_environment h envir = Some (?h', R_NilValue)"
    using assms by (rule unlock_environment_valid)
  have clear: "\<not> bit (gp ?r') 14"
    by (simp add: bit_clear_lock_bit)
  have "(ucast (clear_lock_bit (gp r)) :: 32 word) AND DRAKE_FRAME_LOCK_MASK = 0"
    by (rule bit_word_eqI)
      (simp add: bit_and_iff bit_ucast_iff bit_clear_lock_bit bit_DRAKE_FRAME_LOCK_MASK)
  then have "DRAKE_FRAME_IS_LOCKED ?h' envir = Some 0"
    by (simp add: DRAKE_FRAME_IS_LOCKED_def ENVFLAGS_def)
  with run clear show ?thesis
    by simp
qed

text \<open>The statement above at a concrete memory.\<close>

theorem unlock_environment_clears_lock_bit_witness:
  "example_heap (Ptr 1) = Some locked_env \<and> bit (gp locked_env) 14 \<and>
   (\<exists>h' v r'. unlock_environment example_heap (Ptr 1) = Some (h', v) \<and>
      h' (Ptr 1) = Some r' \<and> \<not> bit (gp r') 14 \<and>
      DRAKE_FRAME_IS_LOCKED h' (Ptr 1) = Some 0)"
proof -
  have valid: "example_heap (Ptr 1) = Some locked_env"
    by (simp add: example_heap_def)
  have locked: "bit (gp locked_env) 14"
    by (simp add: locked_env_def)
  from valid locked unlock_environment_clears_lock_bit [of example_heap "Ptr 1" locked_env, OF valid] show ?thesis
    by (intro conjI)
qed

text \<open>
  C2. For every execution-context record, every bit of the flags field other than the
  lock bit (bit 14) has the same value after the call as before it.
\<close>

theorem unlock_environment_keeps_other_bits:
  assumes "h envir = Some r" and "n \<noteq> 14"
  shows "\<exists>h' v r'. unlock_environment h envir = Some (h', v) \<and> h' envir = Some r' \<and>
           bit (gp r') n = bit (gp r) n"
  using assms by (simp add: unlock_environment_valid bit_clear_lock_bit)

text \<open>The statement above at a concrete memory.\<close>

theorem unlock_environment_keeps_other_bits_witness:
  "example_heap (Ptr 2) = Some locked_env_bit0 \<and> (0::nat) \<noteq> 14 \<and>
   (\<exists>h' v r'. unlock_environment example_heap (Ptr 2) = Some (h', v) \<and>
      h' (Ptr 2) = Some r' \<and> bit (gp r') 0 = bit (gp locked_env_bit0) 0)"
proof -
  have valid: "example_heap (Ptr 2) = Some locked_env_bit0"
    by (simp add: example_heap_def)
  have other: "(0::nat) \<noteq> 14"
    by simp
  from valid other unlock_environment_keeps_other_bits [of example_heap "Ptr 2" locked_env_bit0 0, OF valid other] show ?thesis
    by (intro conjI)
qed

section \<open>The computation\<close>

text \<open>
  C3. For every execution-context record, the new flags value is the old flags value
  bitwise-ANDed with the bitwise complement of the mask \<^verbatim>\<open>1<<14\<close>, and that value is
  written back into the record's flags field: the memory after the call is the memory
  before it with \<open>gp r AND NOT (push_bit 14 1)\<close> stored in \<open>gp\<close> of the record.
\<close>

theorem unlock_environment_and_not_mask:
  assumes "h envir = Some r"
  shows "map_option fst (unlock_environment h envir) =
           Some (h(envir \<mapsto> r\<lparr>gp := gp r AND NOT (push_bit 14 1)\<rparr>))"
  using assms unfolding clear_lock_bit_def [symmetric]
  by (simp add: unlock_environment_valid)

text \<open>The statement above at a concrete memory.\<close>

theorem unlock_environment_and_not_mask_witness:
  "example_heap (Ptr 4) = Some busy_env \<and>
   map_option fst (unlock_environment example_heap (Ptr 4)) =
     Some (example_heap(Ptr 4 \<mapsto> busy_env\<lparr>gp := 0xBFFF\<rparr>))"
proof -
  have valid: "example_heap (Ptr 4) = Some busy_env"
    by (simp add: example_heap_def)
  have "gp busy_env AND NOT (push_bit 14 1) = 0xBFFF"
    by (simp add: busy_env_def)
  with valid unlock_environment_and_not_mask [of example_heap "Ptr 4" busy_env, OF valid] show ?thesis
    by simp
qed

text \<open>
  C4. For every execution-context record, the call returns the host's empty/null value
  \<open>R_NilValue\<close>, whatever the flags of the record were.
\<close>

theorem unlock_environment_returns_nil:
  assumes "h envir = Some r"
  shows "map_option snd (unlock_environment h envir) = Some R_NilValue"
  using assms by (simp add: unlock_environment_valid)

text \<open>The statement above at a concrete memory.\<close>

theorem unlock_environment_returns_nil_witness:
  "example_heap (Ptr 1) = Some locked_env \<and>
   map_option snd (unlock_environment example_heap (Ptr 1)) = Some R_NilValue \<and>
   example_heap (Ptr 3) = Some unlocked_env \<and>
   map_option snd (unlock_environment example_heap (Ptr 3)) = Some R_NilValue"
proof -
  have valid1: "example_heap (Ptr 1) = Some locked_env"
    and valid3: "example_heap (Ptr 3) = Some unlocked_env"
    by (simp_all add: example_heap_def)
  from valid1 valid3 unlock_environment_returns_nil [of example_heap "Ptr 1" locked_env, OF valid1]
    unlock_environment_returns_nil [of example_heap "Ptr 3" unlocked_env, OF valid3]
  show ?thesis
    by (intro conjI)
qed

section \<open>Repeated calls and unlocked records\<close>

text \<open>
  C5. Idempotence: calling \<open>unlock_environment\<close> twice in succession on a record leaves
  the flags field equal to the value it has after one call (the second call changes
  nothing at all in the memory).
\<close>

theorem unlock_environment_idempotent:
  assumes "h envir = Some r"
  shows "\<exists>h1 v1 r1 h2 v2 r2.
           unlock_environment h envir = Some (h1, v1) \<and> h1 envir = Some r1 \<and>
           unlock_environment h1 envir = Some (h2, v2) \<and> h2 envir = Some r2 \<and>
           gp r2 = gp r1 \<and> h2 = h1"
proof -
  let ?r1 = "r\<lparr>gp := clear_lock_bit (gp r)\<rparr>"
  let ?h1 = "h(envir \<mapsto> ?r1)"
  have first: "unlock_environment h envir = Some (?h1, R_NilValue)"
    using assms by (rule unlock_environment_valid)
  have at1: "?h1 envir = Some ?r1"
    by simp
  have "unlock_environment ?h1 envir =
          Some (?h1(envir \<mapsto> ?r1\<lparr>gp := clear_lock_bit (gp ?r1)\<rparr>), R_NilValue)"
    using at1 by (rule unlock_environment_valid)
  then have second: "unlock_environment ?h1 envir = Some (?h1, R_NilValue)"
    by (simp add: clear_lock_bit_idem)
  from first at1 second show ?thesis
    by blast
qed

text \<open>The statement above at a concrete memory.\<close>

theorem unlock_environment_idempotent_witness:
  "example_heap (Ptr 2) = Some locked_env_bit0 \<and>
   (\<exists>h1 v1 r1 h2 v2 r2.
      unlock_environment example_heap (Ptr 2) = Some (h1, v1) \<and> h1 (Ptr 2) = Some r1 \<and>
      unlock_environment h1 (Ptr 2) = Some (h2, v2) \<and> h2 (Ptr 2) = Some r2 \<and>
      gp r2 = gp r1 \<and> h2 = h1)"
proof -
  have valid: "example_heap (Ptr 2) = Some locked_env_bit0"
    by (simp add: example_heap_def)
  from valid
    unlock_environment_idempotent [of example_heap "Ptr 2" locked_env_bit0, OF valid]
  show ?thesis
    by (intro conjI)
qed

text \<open>
  C6. For every execution-context record whose lock bit is already clear, the call
  leaves the flags field entirely unchanged; in particular flags equal to 0 remain 0.
\<close>

theorem unlock_environment_unlocked_unchanged:
  assumes "h envir = Some r" and "\<not> bit (gp r) 14"
  shows "\<exists>h' v r'. unlock_environment h envir = Some (h', v) \<and> h' envir = Some r' \<and>
           gp r' = gp r \<and> (gp r = 0 \<longrightarrow> gp r' = 0) \<and> h' = h"
proof -
  have same: "clear_lock_bit (gp r) = gp r"
    using assms(2) by (rule clear_lock_bit_unlocked)
  have "h(envir \<mapsto> r\<lparr>gp := gp r\<rparr>) = h"
    using assms(1) by (simp add: fun_upd_idem)
  with assms(1) same show ?thesis
    by (simp add: unlock_environment_valid)
qed

text \<open>The statement above at a concrete memory.\<close>

theorem unlock_environment_unlocked_unchanged_witness:
  "example_heap (Ptr 3) = Some unlocked_env \<and> \<not> bit (gp unlocked_env) 14 \<and>
   gp unlocked_env = 0 \<and>
   (\<exists>h' v r'. unlock_environment example_heap (Ptr 3) = Some (h', v) \<and>
      h' (Ptr 3) = Some r' \<and> gp r' = gp unlocked_env \<and>
      (gp unlocked_env = 0 \<longrightarrow> gp r' = 0) \<and> h' = example_heap)"
proof -
  have valid: "example_heap (Ptr 3) = Some unlocked_env"
    by (simp add: example_heap_def)
  have clear: "\<not> bit (gp unlocked_env) 14" and zero: "gp unlocked_env = 0"
    by (simp_all add: unlocked_env_def)
  from valid clear zero
    unlock_environment_unlocked_unchanged [of example_heap "Ptr 3" unlocked_env, OF valid clear]
  show ?thesis
    by (intro conjI)
qed

text \<open>
  C7. Concrete values: a record whose flags field is \<^verbatim>\<open>0b0100000000000000\<close> (\<open>0x4000\<close>, only
  the lock bit set) has flags \<^verbatim>\<open>0b0000000000000000\<close> after the call, and a record whose
  flags field is \<^verbatim>\<open>0b0100000000000001\<close> (\<open>0x4001\<close>) has flags \<^verbatim>\<open>0b0000000000000001\<close>
  after the call.
\<close>

theorem unlock_environment_scenarios:
  assumes "h envir = Some r"
  shows "(gp r = 0x4000 \<longrightarrow>
            (\<exists>h' v r'. unlock_environment h envir = Some (h', v) \<and> h' envir = Some r' \<and>
               gp r' = 0x0000)) \<and>
         (gp r = 0x4001 \<longrightarrow>
            (\<exists>h' v r'. unlock_environment h envir = Some (h', v) \<and> h' envir = Some r' \<and>
               gp r' = 0x0001))"
  using assms by (simp add: unlock_environment_valid clear_lock_bit_def)

text \<open>The statement above at a concrete memory.\<close>

theorem unlock_environment_scenarios_witness:
  "(example_heap (Ptr 1) = Some locked_env \<and> gp locked_env = 0x4000 \<and>
    (\<exists>h' v r'. unlock_environment example_heap (Ptr 1) = Some (h', v) \<and>
       h' (Ptr 1) = Some r' \<and> gp r' = 0x0000)) \<and>
   (example_heap (Ptr 2) = Some locked_env_bit0 \<and> gp locked_env_bit0 = 0x4001 \<and>
    (\<exists>h' v r'. unlock_environment example_heap (Ptr 2) = Some (h', v) \<and>
       h' (Ptr 2) = Some r' \<and> gp r' = 0x0001))"
proof -
  have valid1: "example_heap (Ptr 1) = Some locked_env"
    and valid2: "example_heap (Ptr 2) = Some locked_env_bit0"
    by (simp_all add: example_heap_def)
  have flags1: "gp locked_env = 0x4000" and flags2: "gp locked_env_bit0 = 0x4001"
    by (simp_all add: locked_env_def locked_env_bit0_def)
  have one: "\<exists>h' v r'. unlock_environment example_heap (Ptr 1) = Some (h', v) \<and>
       h' (Ptr 1) = Some r' \<and> gp r' = 0x0000"
    by (rule unlock_environment_scenarios [of example_heap "Ptr 1" locked_env, OF valid1,
          THEN conjunct1, THEN mp, OF flags1])
  have two: "\<exists>h' v r'. unlock_environment example_heap (Ptr 2) = Some (h', v) \<and>
       h' (Ptr 2) = Some r' \<and> gp r' = 0x0001"
    by (rule unlock_environment_scenarios [of example_heap "Ptr 2" locked_env_bit0, OF valid2,
          THEN conjunct2, THEN mp, OF flags2])
  from valid1 flags1 one valid2 flags2 two show ?thesis
    by (intro conjI)
qed

section \<open>No failure\<close>

text \<open>
  C8. For every valid record reference the call completes: it has no error branch and
  signals nothing. In the model the call returns a memory and a value exactly when the
  reference is live; the only \<open>None\<close> is the undefined behaviour of C on an invalid
  reference.
\<close>

theorem unlock_environment_succeeds:
  "(\<exists>h' v. unlock_environment h envir = Some (h', v)) \<longleftrightarrow> envir \<in> dom h"
proof (cases "h envir")
  case None
  then show ?thesis
    by (simp add: unlock_environment_invalid domIff)
next
  case (Some r)
  then show ?thesis
    by (simp add: unlock_environment_valid domIff)
qed

text \<open>The statement above at a concrete memory.\<close>

theorem unlock_environment_succeeds_witness:
  "Ptr 4 \<in> dom example_heap \<and>
   (\<exists>h' v. unlock_environment example_heap (Ptr 4) = Some (h', v))"
proof -
  have valid: "Ptr 4 \<in> dom example_heap"
    by (simp add: example_heap_def)
  with unlock_environment_succeeds [of example_heap "Ptr 4"] show ?thesis
    by simp
qed

section \<open>Frame and determinism\<close>

text \<open>
  C9. The call changes only the flags field of the supplied record, and uses nothing
  else. Written: the record after the call has the same other fields, every other record
  \<open>p\<close> is as before, and the whole memory is the old one with only \<open>gp\<close> of the record
  replaced. Read: in any other memory \<open>h2\<close> whose record at the same reference agrees
  on \<open>gp\<close> only (other fields and other records arbitrary), the call stores the same
  flags value, touches nothing else and returns the same value.
\<close>

theorem unlock_environment_only_flags:
  assumes "h envir = Some r" and "p \<noteq> envir"
    and "h2 envir = Some r2" and "gp r2 = gp r"
  shows "\<exists>h' v r'. unlock_environment h envir = Some (h', v) \<and> h' envir = Some r' \<and>
           SEXPREC.more r' = SEXPREC.more r \<and> h' p = h p \<and>
           h' = h(envir \<mapsto> r\<lparr>gp := gp r'\<rparr>) \<and>
           unlock_environment h2 envir = Some (h2(envir \<mapsto> r2\<lparr>gp := gp r'\<rparr>), v)"
  using assms by (simp add: unlock_environment_valid)

text \<open>The statement above at a concrete memory.\<close>

theorem unlock_environment_only_flags_witness:
  "example_heap (Ptr 2) = Some locked_env_bit0 \<and> Ptr 1 \<noteq> Ptr 2 \<and>
   other_heap (Ptr 2) = Some (locked_env_bit0\<lparr>frame := Ptr 77, enclos := R_NilValue\<rparr>) \<and>
   gp (locked_env_bit0\<lparr>frame := Ptr 77, enclos := R_NilValue\<rparr>) = gp locked_env_bit0 \<and>
   (\<exists>h' v r'. unlock_environment example_heap (Ptr 2) = Some (h', v) \<and>
      h' (Ptr 2) = Some r' \<and>
      SEXPREC.more r' = SEXPREC.more locked_env_bit0 \<and> h' (Ptr 1) = example_heap (Ptr 1) \<and>
      h' = example_heap(Ptr 2 \<mapsto> locked_env_bit0\<lparr>gp := gp r'\<rparr>) \<and>
      unlock_environment other_heap (Ptr 2) =
        Some (other_heap(Ptr 2 \<mapsto>
          locked_env_bit0\<lparr>frame := Ptr 77, enclos := R_NilValue\<rparr>\<lparr>gp := gp r'\<rparr>), v))"
proof -
  have valid: "example_heap (Ptr 2) = Some locked_env_bit0"
    by (simp add: example_heap_def)
  have apart: "Ptr 1 \<noteq> Ptr 2"
    by simp
  have valid2:
    "other_heap (Ptr 2) = Some (locked_env_bit0\<lparr>frame := Ptr 77, enclos := R_NilValue\<rparr>)"
    by (simp add: other_heap_def)
  have flags: "gp (locked_env_bit0\<lparr>frame := Ptr 77, enclos := R_NilValue\<rparr>) = gp locked_env_bit0"
    by simp
  from valid apart valid2 flags
    unlock_environment_only_flags [of example_heap "Ptr 2" locked_env_bit0 "Ptr 1" other_heap
      "locked_env_bit0\<lparr>frame := Ptr 77, enclos := R_NilValue\<rparr>", OF valid apart valid2 flags]
  show ?thesis
    by (intro conjI)
qed

text \<open>
  C10. Determinism: the resulting flags and the returned value are a function of the
  record's prior flags. Two calls on records with equal flags fields, in any two
  memories and at any two references, leave equal flags fields and return the same
  value, \<open>R_NilValue\<close>.
\<close>

theorem unlock_environment_deterministic:
  assumes "h1 e1 = Some r1" and "h2 e2 = Some r2" and "gp r1 = gp r2"
  shows "\<exists>h1' h2' v r1' r2'.
           unlock_environment h1 e1 = Some (h1', v) \<and> h1' e1 = Some r1' \<and>
           unlock_environment h2 e2 = Some (h2', v) \<and> h2' e2 = Some r2' \<and>
           gp r1' = gp r2' \<and> v = R_NilValue"
  using assms by (simp add: unlock_environment_valid)

text \<open>The statement above at a concrete memory.\<close>

theorem unlock_environment_deterministic_witness:
  "example_heap (Ptr 2) = Some locked_env_bit0 \<and>
   [R_NilValue \<mapsto> \<lparr>gp = 0x4001\<rparr>] R_NilValue = Some \<lparr>gp = 0x4001\<rparr> \<and>
   gp locked_env_bit0 = gp \<lparr>gp = 0x4001\<rparr> \<and>
   (\<exists>h1' h2' v r1' r2'.
      unlock_environment example_heap (Ptr 2) = Some (h1', v) \<and> h1' (Ptr 2) = Some r1' \<and>
      unlock_environment [R_NilValue \<mapsto> \<lparr>gp = 0x4001\<rparr>] R_NilValue = Some (h2', v) \<and>
      h2' R_NilValue = Some r2' \<and> gp r1' = gp r2' \<and> v = R_NilValue)"
proof -
  have valid1: "example_heap (Ptr 2) = Some locked_env_bit0"
    by (simp add: example_heap_def)
  have valid2: "[R_NilValue \<mapsto> \<lparr>gp = 0x4001\<rparr>] R_NilValue = Some \<lparr>gp = 0x4001\<rparr>"
    by simp
  have flags: "gp locked_env_bit0 = gp \<lparr>gp = 0x4001\<rparr>"
    by (simp add: locked_env_bit0_def)
  from valid1 valid2 flags
    unlock_environment_deterministic [of example_heap "Ptr 2" locked_env_bit0
      "[R_NilValue \<mapsto> \<lparr>gp = 0x4001\<rparr>]" R_NilValue "\<lparr>gp = 0x4001\<rparr>", OF valid1 valid2 flags]
  show ?thesis
    by (intro conjI)
qed

end
